theory Spec2Isabelle
  imports Main "HOL-Library.Word"
begin

unbundle bit_operations_syntax

section \<open>The layout plugin of the IDE (spyder/plugins/layout/plugin.py)\<close>

text \<open>
  The plugin is glue code between a plugin registry, a preferences store and the
  main window of a GUI toolkit. The embedding keeps one record for everything a
  method of the \<open>Layout\<close> class can read or write: the attributes of the plugin
  instance, the widgets of its container, the main window, the registered dockable
  plugins and the preferences store. Every method becomes a function that takes
  this record and returns the outcome of the call together with the record as the
  call left it, so that an exception raised half way keeps the mutations made
  before it, as in Python.
\<close>

subsection \<open>Exceptions and outcomes\<close>

datatype error = AttributeError | NoOptionError | SpyderAPIError | TypeError | IndexError

datatype 'a outcome = Returned 'a | Raised error

subsection \<open>Toolkit data\<close>

text \<open>A rectangle of the toolkit (\<open>QRect\<close>): left, top, width, height.\<close>

record qrect =
  qr_left :: int
  qr_top :: int
  qr_width :: int
  qr_height :: int

text \<open>
  The window state of the toolkit (\<open>Qt.WindowStates\<close>) holds three independent
  display flags. \<open>setWindowState\<close> replaces all of them; \<open>showNormal\<close>,
  \<open>showMaximized\<close> and \<open>showFullScreen\<close> are the documented combinations.
\<close>

record window_state =
  ws_minimized :: bool
  ws_maximized :: bool
  ws_fullscreen :: bool

definition WindowNoState :: window_state where
  "WindowNoState = \<lparr>ws_minimized = False, ws_maximized = False, ws_fullscreen = False\<rparr>"

definition WindowMaximized :: window_state where
  "WindowMaximized = \<lparr>ws_minimized = False, ws_maximized = True, ws_fullscreen = False\<rparr>"


text \<open>Window flags (\<open>Qt.WindowFlags\<close>) are a 32-bit mask.\<close>

definition FramelessWindowHint :: "32 word" where
  "FramelessWindowHint = 0x00000800"

definition WindowStaysOnTopHint :: "32 word" where
  "WindowStaysOnTopHint = 0x00040000"

text \<open>
  What \<open>saveState\<close> serialises: the version it was asked to write, for every dock
  widget (by the name of its plugin) whether it is shown and whether it floats, and
  the arrangement of the dock areas, which the embedding keeps as an opaque number.
  Any other byte string is \<open>Raw\<close>; \<open>Raw []\<close> is the empty string. The
  hexadecimal text kept in the preferences and the byte string it encodes are
  identified.
\<close>

datatype qbytes =
    SavedState nat "(string \<times> bool \<times> bool) list" nat
  | Raw string

record dockwidget =
  dw_visible :: bool
  dw_floating :: bool
  dw_title_bar :: bool
  dw_toggle_view_enabled :: bool
  dw_holds_widget :: bool
  dw_is_shown :: bool
  dw_tab_event_filter :: bool

record action =
  checked :: bool
  action_id :: string

datatype plugin_api = NewAPI | OldAPI

text \<open>
  A dockable plugin. \<open>ismaximized\<close> is the maximized state of its widget (new API)
  or its \<open>_ismaximized\<close> attribute (old API); \<open>is_visible\<close> likewise.
  \<open>contains_focus\<close> says whether its widget is an ancestor of
  \<open>QApplication.focusWidget()\<close>. \<open>toggle_view_action\<close> is the attribute
  \<open>toggle_view_action\<close> (new API) or \<open>_toggle_view_action\<close> (old API).
\<close>

record plugin =
  NAME :: string
  CONF_SECTION :: string
  api :: plugin_api
  dockwidget :: "dockwidget option"
  toggle_view_action :: "action option"
  ismaximized :: bool
  is_visible :: bool
  contains_focus :: bool

record main_window =
  mw_state :: window_state
  mw_flags :: "32 word"
  mw_size :: "int \<times> int"
  mw_pos :: "int \<times> int"
  mw_normal_geometry :: qrect
  mw_central :: "string option"
  mw_arrangement :: nat
  mw_updates_enabled :: bool
  mw_min_width :: int
  mw_max_width :: int
  mw_statusbar_hidden :: bool
  mw_active :: bool

subsection \<open>Preferences\<close>

datatype conf_value =
    VNone
  | VBool bool
  | VPair int int
  | VState qbytes
  | VList "string list"

text \<open>A registered layout type, with the effect of applying it.\<close>

record layout_type =
  layout_name :: string
  set_main_window_layout :: "main_window \<Rightarrow> plugin list \<Rightarrow> main_window \<times> plugin list"

datatype menu_item = Item_str string | Item_None | Item_action string

datatype event =
    Critical_message string
  | Sig_layout_setup_ready string
  | Update_layout_menu_actions

subsection \<open>The state\<close>

record layout_state =
  last_plugin :: "string option"
  fullscreen_flag :: "bool option"
  maximized_flag :: conf_value
  saved_normal_geometry :: "qrect option"
  state_before_maximizing :: "qbytes option"
  interface_locked :: bool
  window_settings_applied_on_first_run :: bool
  first_spyder_run :: bool
  window_size :: "(int \<times> int) option"
  window_position :: "(int \<times> int) option"
  current_quick_layout :: "string option"
  maximize_action_checked :: bool
  fullscreen_action_icon :: string
  lock_interface_action_icon :: string
  lock_interface_action_text :: string
  plugins_menu :: "menu_item list"
  spyder_layouts :: "(string \<times> layout_type) list"
  events :: "event list"
  main :: main_window
  plugins :: "plugin list"
  outline_docked_with_editor :: bool
  toolbar_locked :: "bool option"
  conf :: "string \<times> string \<Rightarrow> conf_value option"
  conf_defaults :: "string \<times> string \<Rightarrow> conf_value option"
  default_layouts :: "string list"
  spyder_layout_id :: string
  os_name :: string
  screen_virtual_geometry :: qrect
  screen_geometry :: qrect

type_synonym 'a run = "layout_state \<Rightarrow> 'a outcome \<times> layout_state"

subsection \<open>Constants of the module\<close>

definition WINDOW_STATE_VERSION :: nat where
  "WINDOW_STATE_VERSION = 4"

text \<open>The names under which the registry knows the plugins the module asks for.\<close>

definition Plugins_Editor :: string where
  "Plugins_Editor = ''editor''"

definition Plugins_OutlineExplorer :: string where
  "Plugins_OutlineExplorer = ''outline_explorer''"

subsection \<open>The registry\<close>

text \<open>
  Modelled from the spec: the plugin registry ("the host application's internal
  catalog of loadable feature modules"), which the module only calls.
  \<open>get_plugin(name, error=False)\<close> is the registered plugin of that name, or
  \<open>None\<close>. A plugin object is referred to by its name, the key of the registry;
  \<open>update_plugin\<close> is an assignment to attributes of the plugin of that name.
\<close>

definition get_plugin :: "string \<Rightarrow> layout_state \<Rightarrow> plugin option" where
  "get_plugin name s = find (\<lambda>p. NAME p = name) (plugins s)"

definition update_plugin :: "string \<Rightarrow> (plugin \<Rightarrow> plugin) \<Rightarrow> layout_state \<Rightarrow> layout_state" where
  "update_plugin name f s =
     s\<lparr>plugins := map (\<lambda>p. if NAME p = name then f p else p) (plugins s)\<rparr>"

subsection \<open>Saving and restoring the dock state (toolkit)\<close>

text \<open>
  Modelled from the spec: the toolkit's built-in state save and restore
  ("\<open>saveState\<close>/\<open>restoreState\<close> equivalents already solve the serialization
  problem"; a hexstate "representing the full docking/toolbar arrangement").
  \<open>saveState\<close> records every dock widget that exists and the arrangement;
  \<open>restoreState\<close> puts back what it finds recorded for the dock widgets that exist.
\<close>

definition dock_entries :: "plugin list \<Rightarrow> (string \<times> bool \<times> bool) list" where
  "dock_entries ps =
     concat (map (\<lambda>p. case dockwidget p of
                         None \<Rightarrow> []
                       | Some d \<Rightarrow> [(NAME p, dw_visible d, dw_floating d)]) ps)"

definition saveState :: "nat \<Rightarrow> layout_state \<Rightarrow> qbytes" where
  "saveState version s =
     SavedState version (dock_entries (plugins s)) (mw_arrangement (main s))"

definition restore_dock :: "(string \<times> bool \<times> bool) list \<Rightarrow> plugin \<Rightarrow> plugin" where
  "restore_dock entries p =
     (case dockwidget p of
        None \<Rightarrow> p
      | Some d \<Rightarrow>
          (case map_of entries (NAME p) of
             None \<Rightarrow> p
           | Some (v, f) \<Rightarrow> p\<lparr>dockwidget := Some (d\<lparr>dw_visible := v, dw_floating := f\<rparr>)\<rparr>))"

text \<open>
  \<open>restoreState\<close> compares the version with the one stored in the byte string.
  On a mismatch, or on a byte string that \<open>saveState\<close> did not write, the window
  is left as it is and the answer is \<open>False\<close>.
\<close>

definition restoreState :: "qbytes \<Rightarrow> nat \<Rightarrow> layout_state \<Rightarrow> bool \<times> layout_state" where
  "restoreState bytes version s =
     (case bytes of
        Raw _ \<Rightarrow> (False, s)
      | SavedState v entries arr \<Rightarrow>
          if v = version
          then (True, s\<lparr>plugins := map (restore_dock entries) (plugins s),
                        main := (main s)\<lparr>mw_arrangement := arr\<rparr>\<rparr>)
          else (False, s))"

subsection \<open>Maximizing the current pane\<close>

text \<open>
  The loop of \<open>maximize_dockwidget\<close> over the dockable plugins: hide the dock widget,
  and remember the plugin that holds the focus. A plugin without dock widget raises
  \<open>AttributeError\<close> at \<open>plugin.dockwidget.hide()\<close>; the plugins before it stay hidden.
\<close>

fun hide_dockwidgets ::
  "plugin list \<Rightarrow> string option \<Rightarrow> unit outcome \<times> plugin list \<times> string option" where
  "hide_dockwidgets [] lp = (Returned (), [], lp)"
| "hide_dockwidgets (p # ps) lp =
     (case dockwidget p of
        None \<Rightarrow> (Raised AttributeError, p # ps, lp)
      | Some d \<Rightarrow>
          (let p' = p\<lparr>dockwidget := Some (d\<lparr>dw_visible := False\<rparr>)\<rparr>;
               lp' = (if contains_focus p then Some (NAME p) else lp)
           in case hide_dockwidgets ps lp' of
                (r, ps', lp'') \<Rightarrow> (r, p' # ps', lp'')))"

text \<open>The part of \<open>maximize_dockwidget\<close> under the comment "Maximize last_plugin".\<close>

definition maximize_last_plugin :: "plugin option \<Rightarrow> plugin option \<Rightarrow> unit run" where
  "maximize_last_plugin editor outline_explorer s =
     (case last_plugin s of
        None \<Rightarrow> (Raised AttributeError, s)
      | Some n \<Rightarrow>
          (case get_plugin n s of
             None \<Rightarrow> (Raised AttributeError, s)
           | Some p \<Rightarrow>
               (case dockwidget p of
                  None \<Rightarrow> (Raised AttributeError, s)
                | Some d \<Rightarrow>
                    (let s1 = update_plugin n
                                (\<lambda>q. q\<lparr>dockwidget :=
                                          Some (d\<lparr>dw_toggle_view_enabled := False,
                                                  dw_holds_widget := False\<rparr>),
                                        ismaximized := True,
                                        is_visible := True\<rparr>) s;
                         s2 = s1\<lparr>main := (main s1)\<lparr>mw_central := Some n\<rparr>\<rparr>
                     in if map_option NAME editor = Some n \<and> outline_explorer \<noteq> None
                        then (Returned (), s2\<lparr>outline_docked_with_editor := True\<rparr>)
                        else (Returned (), s2)))))"

text \<open>The \<open>else\<close> branch: restore the layout saved before maximizing.\<close>

definition restore_original_layout ::
  "qbytes \<Rightarrow> plugin option \<Rightarrow> plugin option \<Rightarrow> unit run" where
  "restore_original_layout saved editor outline_explorer s =
     (case last_plugin s of
        None \<Rightarrow> (Raised AttributeError, s)
      | Some n \<Rightarrow>
          (case get_plugin n s of
             None \<Rightarrow> (Raised AttributeError, s)
           | Some p \<Rightarrow>
               (case dockwidget p of
                  None \<Rightarrow> (Raised AttributeError, s)
                | Some d \<Rightarrow>
                    (let s1 = update_plugin n
                                (\<lambda>q. q\<lparr>dockwidget :=
                                          Some (d\<lparr>dw_holds_widget := True,
                                                  dw_toggle_view_enabled := True\<rparr>),
                                        ismaximized := False\<rparr>) s;
                         s2 = s1\<lparr>main := (main s1)\<lparr>mw_central := None\<rparr>\<rparr>;
                         s3 = snd (restoreState saved WINDOW_STATE_VERSION s2);
                         s4 = s3\<lparr>state_before_maximizing := None\<rparr>;
                         s5 = (if map_option NAME editor = Some n \<and> outline_explorer \<noteq> None
                               then s4\<lparr>outline_docked_with_editor := False\<rparr>
                               else s4)
                     in (Returned (),
                         s5\<lparr>plugins := map (\<lambda>q. q\<lparr>contains_focus := (NAME q = n)\<rparr>)
                                           (plugins s5)\<rparr>)))))"

definition maximize_dockwidget :: "bool \<Rightarrow> unit run" where
  "maximize_dockwidget restore s =
     (let editor = get_plugin Plugins_Editor s;
          outline_explorer = get_plugin Plugins_OutlineExplorer s
      in case state_before_maximizing s of
           None \<Rightarrow>
             if restore then (Returned (), s)
             else
               (let s1 = s\<lparr>state_before_maximizing :=
                             Some (saveState WINDOW_STATE_VERSION s)\<rparr>
                in case hide_dockwidgets (plugins s1) (last_plugin s1) of
                     (Raised e, ps, lp) \<Rightarrow> (Raised e, s1\<lparr>plugins := ps, last_plugin := lp\<rparr>)
                   | (Returned _, ps, lp) \<Rightarrow>
                       (let s2 = s1\<lparr>plugins := ps, last_plugin := lp\<rparr>
                        in if last_plugin s2 = None
                           then (case editor of
                                   Some e \<Rightarrow>
                                     maximize_last_plugin editor outline_explorer
                                       (s2\<lparr>last_plugin := Some (NAME e)\<rparr>)
                                 | None \<Rightarrow> (Returned (), s2))
                           else maximize_last_plugin editor outline_explorer s2))
         | Some saved \<Rightarrow> restore_original_layout saved editor outline_explorer s)"

subsection \<open>Reading and writing the preferences\<close>

text \<open>
  Modelled from the spec: the external preferences store ("Config-key read/write via
  an external preferences store"), reached through the inherited methods
  \<open>get_conf\<close>, \<open>get_conf_default\<close> and \<open>set_conf\<close>. An option that the store
  does not hold raises \<open>NoOptionError\<close>, the exception the callers catch.
\<close>

definition get_conf :: "string \<Rightarrow> string \<Rightarrow> layout_state \<Rightarrow> conf_value outcome" where
  "get_conf option section s =
     (case conf s (section, option) of
        None \<Rightarrow> Raised NoOptionError
      | Some v \<Rightarrow> Returned v)"

definition get_conf_default :: "string \<Rightarrow> string \<Rightarrow> layout_state \<Rightarrow> conf_value outcome" where
  "get_conf_default option section s =
     (case conf_defaults s (section, option) of
        None \<Rightarrow> Raised NoOptionError
      | Some v \<Rightarrow> Returned v)"

definition set_conf :: "string \<Rightarrow> conf_value \<Rightarrow> string \<Rightarrow> layout_state \<Rightarrow> layout_state" where
  "set_conf option v section s = s\<lparr>conf := (conf s)((section, option) \<mapsto> v)\<rparr>"

text \<open>Truth value of a Python object in a condition.\<close>

fun truthy :: "conf_value \<Rightarrow> bool" where
  "truthy VNone = False"
| "truthy (VBool b) = b"
| "truthy (VPair _ _) = True"
| "truthy (VState b) = (b \<noteq> Raw [])"
| "truthy (VList l) = (l \<noteq> [])"

text \<open>
  \<open>v[0]\<close> and \<open>v[1]\<close> used as two integers: only a pair of integers has them.
  \<open>None\<close> and booleans are not subscriptable, a sequence of fewer than two items
  has no such index, and the items of any other sequence are not integers.
\<close>

fun as_pair :: "conf_value \<Rightarrow> (int \<times> int) outcome" where
  "as_pair (VPair a b) = Returned (a, b)"
| "as_pair (VList l) = (if length l < 2 then Raised IndexError else Raised TypeError)"
| "as_pair (VState (Raw t)) = (if length t < 2 then Raised IndexError else Raised TypeError)"
| "as_pair (VState (SavedState _ _ _)) = Raised TypeError"
| "as_pair VNone = Raised TypeError"
| "as_pair (VBool _) = Raised TypeError"

subsection \<open>Loading the window settings\<close>

type_synonym settings = "conf_value \<times> conf_value \<times> conf_value \<times> conf_value \<times> conf_value"

definition get_func :: "bool \<Rightarrow> string \<Rightarrow> string \<Rightarrow> layout_state \<Rightarrow> conf_value outcome" where
  "get_func dflt = (if dflt then get_conf_default else get_conf)"

definition load_window_settings ::
  "string \<Rightarrow> bool \<Rightarrow> string \<Rightarrow> layout_state \<Rightarrow> settings outcome" where
  "load_window_settings prefix dflt section s =
     (case get_func dflt (prefix @ ''size'') section s of
        Raised e \<Rightarrow> Raised e
      | Returned window_size' \<Rightarrow>
          (let hexstate =
                 (if dflt then VNone
                  else (case get_func dflt (prefix @ ''state'') section s of
                          Raised _ \<Rightarrow> VNone
                        | Returned h \<Rightarrow> h))
           in case get_func dflt (prefix @ ''position'') section s of
                Raised e \<Rightarrow> Raised e
              | Returned pos \<Rightarrow>
                  (let current_width = qr_width (screen_virtual_geometry s);
                       current_height = qr_height (screen_virtual_geometry s)
                   in case as_pair pos of
                        Raised e \<Rightarrow> Raised e
                      | Returned (width, height) \<Rightarrow>
                          (case (if current_width < width \<or> current_height < height
                                 then get_conf_default (prefix @ ''position'') section s
                                 else Returned pos) of
                             Raised e \<Rightarrow> Raised e
                           | Returned pos' \<Rightarrow>
                               (case get_func dflt (prefix @ ''is_maximized'') section s of
                                  Raised e \<Rightarrow> Raised e
                                | Returned is_maximized \<Rightarrow>
                                    (case get_func dflt (prefix @ ''is_fullscreen'') section s of
                                       Raised e \<Rightarrow> Raised e
                                     | Returned is_fullscreen \<Rightarrow>
                                         Returned (hexstate, window_size', pos',
                                                   is_maximized, is_fullscreen)))))))"

subsection \<open>Showing the main window (toolkit)\<close>

text \<open>
  Modelled from the spec: the windowing primitives of the toolkit's main window.
  \<open>showNormal\<close> clears the three display flags, \<open>showMaximized\<close> and
  \<open>showFullScreen\<close> set their own flag and clear the other two.
\<close>

definition setWindowState :: "window_state \<Rightarrow> layout_state \<Rightarrow> layout_state" where
  "setWindowState ws s = s\<lparr>main := (main s)\<lparr>mw_state := ws\<rparr>\<rparr>"

definition showNormal :: "layout_state \<Rightarrow> layout_state" where
  "showNormal s =
     setWindowState ((mw_state (main s))\<lparr>ws_minimized := False, ws_maximized := False,
                                         ws_fullscreen := False\<rparr>) s"

definition showMaximized :: "layout_state \<Rightarrow> layout_state" where
  "showMaximized s =
     setWindowState ((mw_state (main s))\<lparr>ws_minimized := False, ws_fullscreen := False,
                                         ws_maximized := True\<rparr>) s"

definition showFullScreen :: "layout_state \<Rightarrow> layout_state" where
  "showFullScreen s =
     setWindowState ((mw_state (main s))\<lparr>ws_minimized := False, ws_maximized := False,
                                         ws_fullscreen := True\<rparr>) s"

definition isMaximized :: "layout_state \<Rightarrow> bool" where
  "isMaximized s = ws_maximized (mw_state (main s))"

definition isFullScreen :: "layout_state \<Rightarrow> bool" where
  "isFullScreen s = ws_fullscreen (mw_state (main s))"


subsection \<open>Reading the window settings\<close>


subsection \<open>Saving the window settings\<close>

text \<open>The four options written before the maximized pane is restored.\<close>

definition save_window_geometry :: "string \<Rightarrow> string \<Rightarrow> layout_state \<Rightarrow> layout_state" where
  "save_window_geometry prefix section s =
     (let win_size = mw_size (main s);
          pos = mw_pos (main s);
          s1 = set_conf (prefix @ ''size'') (VPair (fst win_size) (snd win_size)) section s;
          s2 = set_conf (prefix @ ''is_maximized'') (VBool (isMaximized s1)) section s1;
          s3 = set_conf (prefix @ ''is_fullscreen'') (VBool (isFullScreen s2)) section s2
      in set_conf (prefix @ ''position'')
           (VPair (if fst pos > 0 then fst pos else 0)
                  (if snd pos > 0 then snd pos else 0)) section s3)"

definition save_current_window_settings :: "string \<Rightarrow> string \<Rightarrow> bool \<Rightarrow> unit run" where
  "save_current_window_settings prefix section none_state s =
     (case maximize_dockwidget True (save_window_geometry prefix section s) of
        (Raised e, s5) \<Rightarrow> (Raised e, s5)
      | (Returned _, s5) \<Rightarrow>
          (let s6 = (if none_state
                     then set_conf (prefix @ ''state'') VNone section s5
                     else set_conf (prefix @ ''state'')
                            (VState (saveState WINDOW_STATE_VERSION s5)) section s5)
           in (Returned (),
               set_conf (prefix @ ''statusbar'')
                 (VBool (\<not> mw_statusbar_hidden (main s6))) section s6)))"

subsection \<open>Registered layouts\<close>

















subsection \<open>Switching to a quick layout\<close>














subsection \<open>Fullscreen\<close>

definition get_fullscreen_flag :: "layout_state \<Rightarrow> bool option" where
  "get_fullscreen_flag s = fullscreen_flag s"


definition update_fullscreen_action :: "layout_state \<Rightarrow> layout_state" where
  "update_fullscreen_action s =
     s\<lparr>fullscreen_action_icon :=
         (if fullscreen_flag s = Some True then ''window_nofullscreen''
          else ''window_fullscreen'')\<rparr>"

definition setGeometry :: "qrect \<Rightarrow> layout_state \<Rightarrow> layout_state" where
  "setGeometry r s =
     s\<lparr>main := (main s)\<lparr>mw_pos := (qr_left r, qr_top r),
                          mw_size := (qr_width r, qr_height r)\<rparr>\<rparr>"

definition toggle_fullscreen :: "unit run" where
  "toggle_fullscreen s =
     (case (if fullscreen_flag s = Some True
            then (let s1 = s\<lparr>fullscreen_flag := Some False\<rparr>
                  in case (if os_name s1 = ''nt''
                           then (let s2 = s1\<lparr>main := (main s1)\<lparr>mw_flags :=
                                                 mw_flags (main s1) XOR
                                                 (FramelessWindowHint OR WindowStaysOnTopHint)\<rparr>\<rparr>
                                 in case saved_normal_geometry s2 of
                                      None \<Rightarrow> (Raised TypeError, s2)
                                    | Some g \<Rightarrow> (Returned (), setGeometry g s2))
                           else (Returned (), s1)) of
                       (Raised e, s3) \<Rightarrow> (Raised e, s3)
                     | (Returned _, s3) \<Rightarrow>
                         (let s4 = showNormal s3
                          in (Returned (),
                              if truthy (maximized_flag s4) then showMaximized s4 else s4)))
            else (let s1 = s\<lparr>maximized_flag := VBool (isMaximized s)\<rparr>;
                      s2 = s1\<lparr>fullscreen_flag := Some True\<rparr>;
                      s3 = s2\<lparr>saved_normal_geometry := Some (mw_normal_geometry (main s2))\<rparr>
                  in if os_name s3 = ''nt''
                     then (let s4 = s3\<lparr>main := (main s3)\<lparr>mw_flags :=
                                           mw_flags (main s3) OR FramelessWindowHint
                                           OR WindowStaysOnTopHint\<rparr>\<rparr>;
                               r = screen_geometry s4
                           in (Returned (),
                               showNormal
                                 (setGeometry \<lparr>qr_left = qr_left r - 1, qr_top = qr_top r - 1,
                                               qr_width = qr_width r + 2,
                                               qr_height = qr_height r + 2\<rparr> s4)))
                     else (Returned (), showFullScreen s3))) of
        (Raised e, s') \<Rightarrow> (Raised e, s')
      | (Returned _, s') \<Rightarrow> (Returned (), update_fullscreen_action s'))"

subsection \<open>The panes menu\<close>

definition initial_order :: "menu_item list" where
  "initial_order =
     [Item_str ''editor'', Item_str ''ipython_console'', Item_str ''variable_explorer'',
      Item_str ''debugger'', Item_str ''help'', Item_str ''plots'', Item_None,
      Item_str ''explorer'', Item_str ''outline_explorer'', Item_str ''project_explorer'',
      Item_str ''find_in_files'', Item_None, Item_str ''historylog'', Item_str ''profiler'',
      Item_str ''pylint'', Item_None, Item_str ''onlinehelp'', Item_str ''internal_console'',
      Item_None]"

fun index_of :: "'a list \<Rightarrow> 'a \<Rightarrow> nat option" where
  "index_of [] x = None"
| "index_of (y # ys) x = (if y = x then Some 0 else map_option Suc (index_of ys x))"

definition get_toggle_view_action :: "plugin \<Rightarrow> (action option \<times> plugin) outcome" where
  "get_toggle_view_action p =
     (case api p of
        NewAPI \<Rightarrow> Returned (toggle_view_action p, p)
      | OldAPI \<Rightarrow>
          (case toggle_view_action p of
             None \<Rightarrow> Raised AttributeError
           | Some a \<Rightarrow>
               (let a' = a\<lparr>action_id := ''switch to '' @ CONF_SECTION p\<rparr>
                in Returned (Some a', p\<lparr>toggle_view_action := Some a'\<rparr>))))"

definition item_of_action :: "action option \<Rightarrow> plugin \<Rightarrow> menu_item" where
  "item_of_action a p = (case a of None \<Rightarrow> Item_None | Some _ \<Rightarrow> Item_action (NAME p))"

definition put_in_order :: "menu_item list \<Rightarrow> plugin \<Rightarrow> menu_item \<Rightarrow> menu_item list" where
  "put_in_order order p item =
     (case index_of order (Item_str (CONF_SECTION p)) of
        Some pos \<Rightarrow> order[pos := item]
      | None \<Rightarrow> order @ [item])"

fun order_plugins ::
  "plugin list \<Rightarrow> menu_item list \<Rightarrow> unit outcome \<times> plugin list \<times> menu_item list" where
  "order_plugins [] order = (Returned (), [], order)"
| "order_plugins (p # ps) order =
     (case get_toggle_view_action p of
        Raised e \<Rightarrow> (Raised e, p # ps, order)
      | Returned (None, p1) \<Rightarrow>
          (case order_plugins ps (put_in_order order p1 Item_None) of
             (r, ps', order') \<Rightarrow> (r, p1 # ps', order'))
      | Returned (Some a, p1) \<Rightarrow>
          (case dockwidget p1 of
             None \<Rightarrow>
               (case order_plugins ps order of
                  (r, ps', order') \<Rightarrow> (r, p1 # ps', order'))
           | Some d \<Rightarrow>
               (let p2 = p1\<lparr>toggle_view_action := Some (a\<lparr>checked := dw_visible d\<rparr>)\<rparr>
                in case order_plugins ps (put_in_order order p2 (Item_action (NAME p2))) of
                     (r, ps', order') \<Rightarrow> (r, p2 # ps', order'))))"

definition is_str :: "menu_item \<Rightarrow> bool" where
  "is_str item = (case item of Item_str _ \<Rightarrow> True | _ \<Rightarrow> False)"

definition create_plugins_menu :: "unit run" where
  "create_plugins_menu s =
     (case order_plugins (plugins s) initial_order of
        (Raised e, ps, order) \<Rightarrow> (Raised e, s\<lparr>plugins := ps\<rparr>)
      | (Returned _, ps, order) \<Rightarrow>
          (Returned (),
           s\<lparr>plugins := ps,
             plugins_menu := plugins_menu s @ filter (\<lambda>item. \<not> is_str item) order\<rparr>))"

subsection \<open>Locking panes and toolbars\<close>

definition update_lock_interface_action :: "layout_state \<Rightarrow> layout_state" where
  "update_lock_interface_action s =
     (if interface_locked s
      then s\<lparr>lock_interface_action_icon := ''drag_dock_widget'',
             lock_interface_action_text := ''Unlock panes and toolbars''\<rparr>
      else s\<lparr>lock_interface_action_icon := ''lock'',
             lock_interface_action_text := ''Lock panes and toolbars''\<rparr>)"

definition lock_dockwidget :: "bool \<Rightarrow> plugin \<Rightarrow> plugin" where
  "lock_dockwidget locked p =
     (case dockwidget p of
        None \<Rightarrow> p
      | Some d \<Rightarrow>
          if locked
          then p\<lparr>dockwidget :=
                   Some ((if dw_floating d then d\<lparr>dw_floating := False\<rparr> else d)
                           \<lparr>dw_title_bar := False\<rparr>)\<rparr>
          else p\<lparr>dockwidget := Some (d\<lparr>dw_title_bar := True\<rparr>)\<rparr>)"

definition toggle_lock :: "bool option \<Rightarrow> unit run" where
  "toggle_lock v s =
     (let s1 = s\<lparr>interface_locked :=
                  (case v of None \<Rightarrow> \<not> interface_locked s | Some b \<Rightarrow> b)\<rparr>;
          s2 = set_conf ''panes_locked'' (VBool (interface_locked s1)) ''main'' s1;
          s3 = update_lock_interface_action s2;
          s4 = s3\<lparr>plugins := map (lock_dockwidget (interface_locked s3)) (plugins s3)\<rparr>
      in case toolbar_locked s4 of
           None \<Rightarrow> (Raised SpyderAPIError, s4)
         | Some _ \<Rightarrow> (Returned (), s4\<lparr>toolbar_locked := Some (interface_locked s4)\<rparr>))"


subsection \<open>The panes menu as the specification words it\<close>

text \<open>
  The plugins that have a dock widget; the item of the order list with the name of
  a configuration section replaced by the action of the plugin of that section; the
  actions of the plugins whose section is not in the order list. \<open>panes_menu_spec\<close>
  puts them together: the order list with its names replaced (names without plugin
  left out), then all other plugins. \<open>place_all\<close> is the loop of
  \<open>create_plugins_menu\<close> over plugins that all have an action.
\<close>

definition shown :: "plugin list \<Rightarrow> plugin list" where
  "shown ps = filter (\<lambda>p. dockwidget p \<noteq> None) ps"

definition place :: "plugin list \<Rightarrow> menu_item \<Rightarrow> menu_item" where
  "place ps item =
     (case item of
        Item_str name \<Rightarrow>
          (case find (\<lambda>p. CONF_SECTION p = name) ps of
             None \<Rightarrow> Item_str name
           | Some p \<Rightarrow> Item_action (NAME p))
      | other \<Rightarrow> other)"

definition others :: "plugin list \<Rightarrow> menu_item list \<Rightarrow> menu_item list" where
  "others ps order =
     map (\<lambda>p. Item_action (NAME p))
       (filter (\<lambda>p. Item_str (CONF_SECTION p) \<notin> set order) ps)"

definition panes_menu_spec :: "plugin list \<Rightarrow> menu_item list" where
  "panes_menu_spec ps =
     filter (\<lambda>item. \<not> is_str item) (map (place (shown ps)) initial_order)
     @ others (shown ps) initial_order"

fun place_all :: "plugin list \<Rightarrow> menu_item list \<Rightarrow> menu_item list" where
  "place_all [] order = order"
| "place_all (p # ps) order =
     (if dockwidget p = None then place_all ps order
      else place_all ps (put_in_order order p (Item_action (NAME p))))"

subsection \<open>The plugin that gets maximized\<close>




subsection \<open>A concrete session\<close>

text \<open>
  A small session on which the properties below are exercised: four dockable
  plugins (the console holds the focus, one plugin uses the old API), a window in
  its normal state, one registered layout and the preferences of the main window.
\<close>

definition demo_dock :: "bool \<Rightarrow> dockwidget" where
  "demo_dock visible =
     \<lparr>dw_visible = visible, dw_floating = False, dw_title_bar = True,
      dw_toggle_view_enabled = True, dw_holds_widget = True, dw_is_shown = False,
      dw_tab_event_filter = False\<rparr>"

definition demo_plugin :: "string \<Rightarrow> plugin_api \<Rightarrow> bool \<Rightarrow> bool \<Rightarrow> plugin" where
  "demo_plugin name a visible focus =
     \<lparr>NAME = name, CONF_SECTION = name, api = a, dockwidget = Some (demo_dock visible),
      toggle_view_action = Some \<lparr>checked = False, action_id = ''switch to '' @ name\<rparr>,
      ismaximized = False, is_visible = visible, contains_focus = focus\<rparr>"

definition demo_plugins :: "plugin list" where
  "demo_plugins =
     [demo_plugin ''ipython_console'' NewAPI True True,
      demo_plugin ''editor'' NewAPI True False,
      demo_plugin ''my_pane'' OldAPI False False,
      demo_plugin ''help'' NewAPI False False]"

definition demo_main :: main_window where
  "demo_main =
     \<lparr>mw_state = WindowNoState, mw_flags = 0, mw_size = (1260, 740), mw_pos = (-8, 25),
      mw_normal_geometry = \<lparr>qr_left = 10, qr_top = 25, qr_width = 1260, qr_height = 740\<rparr>,
      mw_central = None, mw_arrangement = 7, mw_updates_enabled = True,
      mw_min_width = 0, mw_max_width = 16777215, mw_statusbar_hidden = False,
      mw_active = True\<rparr>"

definition demo_layout :: layout_type where
  "demo_layout =
     \<lparr>layout_name = ''Spyder default'',
      set_main_window_layout = (\<lambda>m ps. (m\<lparr>mw_arrangement := 1\<rparr>, ps))\<rparr>"

definition demo_conf :: "string \<times> string \<Rightarrow> conf_value option" where
  "demo_conf =
     [(''main'', ''window/size'') \<mapsto> VPair 1260 740,
      (''main'', ''window/position'') \<mapsto> VPair 2000 30,
      (''main'', ''window/is_maximized'') \<mapsto> VBool True,
      (''main'', ''window/is_fullscreen'') \<mapsto> VBool False,
      (''main'', ''panes_locked'') \<mapsto> VBool True,
      (''quick_layouts'', ''order'') \<mapsto> VList [''Spyder Default Layout''],
      (''quick_layouts'', ''layout_3/size'') \<mapsto> VPair 800 600,
      (''quick_layouts'', ''layout_3/position'') \<mapsto> VPair 5 5,
      (''quick_layouts'', ''layout_3/state'') \<mapsto> VNone,
      (''quick_layouts'', ''layout_3/is_maximized'') \<mapsto> VBool False,
      (''quick_layouts'', ''layout_3/is_fullscreen'') \<mapsto> VBool False,
      (''quick_layouts'', ''layout_Spyder Default Layout/size'') \<mapsto> VPair 1260 740,
      (''quick_layouts'', ''layout_Spyder Default Layout/position'') \<mapsto> VPair 10 25,
      (''quick_layouts'', ''layout_Spyder Default Layout/state'') \<mapsto> VNone,
      (''quick_layouts'', ''layout_Spyder Default Layout/is_maximized'') \<mapsto> VBool True,
      (''quick_layouts'', ''layout_Spyder Default Layout/is_fullscreen'') \<mapsto> VBool False]"

definition demo_defaults :: "string \<times> string \<Rightarrow> conf_value option" where
  "demo_defaults =
     [(''main'', ''window/size'') \<mapsto> VPair 1260 740,
      (''main'', ''window/position'') \<mapsto> VPair 10 25,
      (''main'', ''window/is_maximized'') \<mapsto> VBool True,
      (''main'', ''window/is_fullscreen'') \<mapsto> VBool False]"

definition demo :: layout_state where
  "demo =
     \<lparr>last_plugin = None, fullscreen_flag = None, maximized_flag = VNone,
      saved_normal_geometry = None, state_before_maximizing = None,
      interface_locked = True, window_settings_applied_on_first_run = False,
      first_spyder_run = False, window_size = None, window_position = None,
      current_quick_layout = None, maximize_action_checked = False,
      fullscreen_action_icon = ''window_fullscreen'',
      lock_interface_action_icon = ''lock'',
      lock_interface_action_text = ''Lock panes and toolbars'',
      plugins_menu = [],
      spyder_layouts = [(''Spyder Default Layout'', demo_layout)],
      events = [], main = demo_main, plugins = demo_plugins,
      outline_docked_with_editor = False, toolbar_locked = Some True,
      conf = demo_conf, conf_defaults = demo_defaults,
      default_layouts = [''Spyder Default Layout''],
      spyder_layout_id = ''Spyder Default Layout'',
      os_name = ''posix'',
      screen_virtual_geometry = \<lparr>qr_left = 0, qr_top = 0, qr_width = 1920, qr_height = 1080\<rparr>,
      screen_geometry = \<lparr>qr_left = 0, qr_top = 0, qr_width = 1920, qr_height = 1080\<rparr>\<rparr>"

definition demo_maximized :: layout_state where
  "demo_maximized = demo\<lparr>main := demo_main\<lparr>mw_state := WindowMaximized\<rparr>\<rparr>"

definition demo_incompatible :: layout_state where
  "demo_incompatible =
     demo\<lparr>plugins := (demo_plugin ''plots'' NewAPI True False)\<lparr>dockwidget := None\<rparr>
                        # demo_plugins\<rparr>"



section \<open>Properties\<close>

subsection \<open>What the methods leave alone\<close>

lemma maximize_last_plugin_conf:
  "conf (snd (maximize_last_plugin e oe s)) = conf s"
  by (simp add: maximize_last_plugin_def update_plugin_def Let_def
           split: option.splits)

lemma restoreState_conf: "conf (snd (restoreState b v s)) = conf s"
  by (simp add: restoreState_def split: qbytes.splits)

lemma restore_original_layout_conf:
  "conf (snd (restore_original_layout saved e oe s)) = conf s"
  by (simp add: restore_original_layout_def update_plugin_def Let_def restoreState_conf
           split: option.splits)

lemma maximize_dockwidget_conf: "conf (snd (maximize_dockwidget r s)) = conf s"
  by (simp add: maximize_dockwidget_def Let_def maximize_last_plugin_conf
                restore_original_layout_conf
           split: option.splits prod.splits outcome.splits)

subsection \<open>Saving the window position\<close>

text \<open>
  C8. \<open>save_current_window_settings\<close> never stores a negative window position:
  whatever the position \<open>(x, y)\<close> of the main window, the prefix, the section and
  the way the call ends, the preferences hold under \<open>prefix + 'position'\<close> the pair
  \<open>(x if x > 0 else 0, y if y > 0 else 0)\<close>, and both of its coordinates are
  non-negative.
\<close>

theorem save_current_window_settings_position:
  "\<exists>x y. conf (snd (save_current_window_settings prefix section none_state s))
               (section, prefix @ ''position'') = Some (VPair x y)
         \<and> x = (if fst (mw_pos (main s)) > 0 then fst (mw_pos (main s)) else 0)
         \<and> y = (if snd (mw_pos (main s)) > 0 then snd (mw_pos (main s)) else 0)
         \<and> 0 \<le> x \<and> 0 \<le> y"
proof -
  define s4 where "s4 = save_window_geometry prefix section s"
  obtain r s5 where m: "maximize_dockwidget True s4 = (r, s5)"
    by (cases "maximize_dockwidget True s4") auto
  have "conf s5 = conf s4"
    using maximize_dockwidget_conf [of True s4] m by simp
  moreover have "conf s4 (section, prefix @ ''position'')
      = Some (VPair (if fst (mw_pos (main s)) > 0 then fst (mw_pos (main s)) else 0)
                    (if snd (mw_pos (main s)) > 0 then snd (mw_pos (main s)) else 0))"
    by (simp add: s4_def save_window_geometry_def Let_def set_conf_def)
  ultimately have "conf (snd (save_current_window_settings prefix section none_state s))
        (section, prefix @ ''position'')
      = Some (VPair (if fst (mw_pos (main s)) > 0 then fst (mw_pos (main s)) else 0)
                    (if snd (mw_pos (main s)) > 0 then snd (mw_pos (main s)) else 0))"
    using m
    by (cases r) (simp_all add: save_current_window_settings_def s4_def [symmetric]
                                Let_def set_conf_def)
  then show ?thesis by simp
qed

theorem save_current_window_settings_position_witness:
  "mw_pos (main demo) = (-8, 25)
   \<and> conf (snd (save_current_window_settings ''window/'' ''main'' False demo))
          (''main'', ''window/position'') = Some (VPair 0 25)"
  using save_current_window_settings_position [of "''window/''" "''main''" False demo]
  by (simp add: demo_def demo_main_def)

subsection \<open>Loading the window position\<close>

text \<open>
  C6. \<open>load_window_settings\<close> reads size, position and the two flags with the
  getter that \<open>default\<close> selects (the stored values; the defaults when
  \<open>default\<close> is true). For a position \<open>(x, y)\<close> read that way, the position it
  returns is the configured default position exactly when the width of the virtual
  screen is less than \<open>x\<close> or its height is less than \<open>y\<close>, and \<open>(x, y)\<close>
  itself otherwise; size, \<open>is_maximized\<close> and \<open>is_fullscreen\<close> are returned as
  read.
\<close>

theorem load_window_settings_position:
  assumes "get_func dflt (prefix @ ''size'') section s = Returned stored_size"
    and "get_func dflt (prefix @ ''position'') section s = Returned (VPair x y)"
    and "get_func dflt (prefix @ ''is_maximized'') section s = Returned stored_max"
    and "get_func dflt (prefix @ ''is_fullscreen'') section s = Returned stored_full"
    and "qr_width (screen_virtual_geometry s) < x \<or> qr_height (screen_virtual_geometry s) < y
         \<Longrightarrow> get_conf_default (prefix @ ''position'') section s = Returned default_pos"
  shows "load_window_settings prefix dflt section s =
           Returned ((if dflt then VNone
                      else case get_conf (prefix @ ''state'') section s of
                             Raised _ \<Rightarrow> VNone
                           | Returned h \<Rightarrow> h),
                     stored_size,
                     (if qr_width (screen_virtual_geometry s) < x
                         \<or> qr_height (screen_virtual_geometry s) < y
                      then default_pos else VPair x y),
                     stored_max, stored_full)"
  using assms by (auto simp add: load_window_settings_def Let_def get_func_def)

theorem load_window_settings_position_witness:
  "load_window_settings ''window/'' False ''main'' demo =
     Returned (VNone, VPair 1260 740, VPair 10 25, VBool True, VBool False)
   \<and> load_window_settings ''layout_3/'' False ''quick_layouts'' demo =
     Returned (VNone, VPair 800 600, VPair 5 5, VBool False, VBool False)"
  using load_window_settings_position [of False "''window/''" "''main''" demo "VPair 1260 740"
          2000 30 "VBool True" "VBool False" "VPair 10 25"]
    load_window_settings_position [of False "''layout_3/''" "''quick_layouts''" demo "VPair 800 600"
          5 5 "VBool False" "VBool False" "VPair 10 25"]
  by (simp add: get_func_def get_conf_def get_conf_default_def demo_def demo_conf_def demo_defaults_def)

subsection \<open>Locking\<close>

lemma lock_dockwidget_effect:
  "dockwidget (lock_dockwidget locked p) = Some d \<Longrightarrow>
     (if locked then \<not> dw_title_bar d \<and> \<not> dw_floating d else dw_title_bar d)"
  by (auto simp: lock_dockwidget_def split: option.splits if_splits)

lemma lock_dockwidget_NAME: "NAME (lock_dockwidget locked p) = NAME p"
  by (simp add: lock_dockwidget_def split: option.splits)

lemma lock_dockwidget_None:
  "(dockwidget (lock_dockwidget locked p) = None) = (dockwidget p = None)"
  by (simp add: lock_dockwidget_def split: option.splits)

lemma toggle_lock_flag:
  "interface_locked (snd (toggle_lock v s))
     = (case v of None \<Rightarrow> \<not> interface_locked s | Some b \<Rightarrow> b)"
  by (simp add: toggle_lock_def Let_def set_conf_def update_lock_interface_action_def
           split: option.splits)

lemma toggle_lock_conf:
  "conf (snd (toggle_lock v s)) (''main'', ''panes_locked'')
     = Some (VBool (case v of None \<Rightarrow> \<not> interface_locked s | Some b \<Rightarrow> b))"
  by (simp add: toggle_lock_def Let_def set_conf_def update_lock_interface_action_def
           split: option.splits)

lemma toggle_lock_plugins:
  "plugins (snd (toggle_lock v s))
     = map (lock_dockwidget (case v of None \<Rightarrow> \<not> interface_locked s | Some b \<Rightarrow> b))
           (plugins s)"
  by (simp add: toggle_lock_def Let_def set_conf_def update_lock_interface_action_def
           split: option.splits)

text \<open>
  C10. After every call of \<open>toggle_lock\<close>, however it ends, the flag
  \<open>_interface_locked\<close> and the option \<open>panes_locked\<close> of section \<open>main\<close>
  are equal: the flag is the negation of the old one for \<open>value=None\<close> and
  \<open>value\<close> otherwise, and that flag is what the preferences hold. Every plugin that
  has a dock widget has it without title bar and not floating when locked, and with
  its title bar when unlocked; the plugins without dock widget are passed over.
\<close>

theorem toggle_lock_keeps_flag_and_option_equal:
  "interface_locked (snd (toggle_lock v s))
       = (case v of None \<Rightarrow> \<not> interface_locked s | Some b \<Rightarrow> b)
   \<and> conf (snd (toggle_lock v s)) (''main'', ''panes_locked'')
       = Some (VBool (interface_locked (snd (toggle_lock v s))))
   \<and> (\<forall>p \<in> set (plugins (snd (toggle_lock v s))). \<forall>d. dockwidget p = Some d \<longrightarrow>
         (if interface_locked (snd (toggle_lock v s))
          then \<not> dw_title_bar d \<and> \<not> dw_floating d
          else dw_title_bar d))
   \<and> map NAME (plugins (snd (toggle_lock v s))) = map NAME (plugins s)
   \<and> map (\<lambda>p. dockwidget p = None) (plugins (snd (toggle_lock v s)))
       = map (\<lambda>p. dockwidget p = None) (plugins s)"
proof -
  let ?b = "case v of None \<Rightarrow> \<not> interface_locked s | Some b \<Rightarrow> b"
  have docks: "\<forall>p \<in> set (map (lock_dockwidget ?b) (plugins s)). \<forall>d. dockwidget p = Some d \<longrightarrow>
         (if ?b then \<not> dw_title_bar d \<and> \<not> dw_floating d else dw_title_bar d)"
    using lock_dockwidget_effect [of ?b] by auto
  show ?thesis
    using docks
    by (simp only: toggle_lock_flag toggle_lock_conf toggle_lock_plugins)
       (simp add: lock_dockwidget_NAME lock_dockwidget_None comp_def)
qed

theorem toggle_lock_witness:
  "interface_locked demo
   \<and> \<not> interface_locked (snd (toggle_lock None demo))
   \<and> conf (snd (toggle_lock None demo)) (''main'', ''panes_locked'') = Some (VBool False)
   \<and> interface_locked (snd (toggle_lock (Some True) (snd (toggle_lock None demo))))
   \<and> conf (snd (toggle_lock (Some True) (snd (toggle_lock None demo)))) (''main'', ''panes_locked'')
        = Some (VBool True)"
  using toggle_lock_keeps_flag_and_option_equal [of None demo]
    toggle_lock_keeps_flag_and_option_equal [of "Some True" "snd (toggle_lock None demo)"]
  by (simp add: demo_def)

subsection \<open>Toggling fullscreen\<close>

lemmas window_defs =
  showNormal_def showMaximized_def showFullScreen_def setWindowState_def setGeometry_def
  isMaximized_def isFullScreen_def update_fullscreen_action_def get_fullscreen_flag_def

lemma toggle_fullscreen_enter:
  assumes "fullscreen_flag s \<noteq> Some True"
  shows "toggle_fullscreen s =
           (Returned (),
            update_fullscreen_action
              (let s3 = s\<lparr>maximized_flag := VBool (isMaximized s),
                          fullscreen_flag := Some True,
                          saved_normal_geometry := Some (mw_normal_geometry (main s))\<rparr>
               in if os_name s = ''nt''
                  then showNormal
                         (setGeometry \<lparr>qr_left = qr_left (screen_geometry s) - 1,
                                       qr_top = qr_top (screen_geometry s) - 1,
                                       qr_width = qr_width (screen_geometry s) + 2,
                                       qr_height = qr_height (screen_geometry s) + 2\<rparr>
                            (s3\<lparr>main := (main s)\<lparr>mw_flags :=
                                    mw_flags (main s) OR FramelessWindowHint
                                    OR WindowStaysOnTopHint\<rparr>\<rparr>))
                  else showFullScreen s3))"
  using assms by (simp add: toggle_fullscreen_def Let_def)

lemma toggle_fullscreen_leave:
  assumes "fullscreen_flag s = Some True"
    and "os_name s = ''nt'' \<Longrightarrow> saved_normal_geometry s = Some g"
  shows "toggle_fullscreen s =
           (Returned (),
            update_fullscreen_action
              (let s1 = s\<lparr>fullscreen_flag := Some False\<rparr>;
                   s3 = (if os_name s = ''nt''
                         then setGeometry g
                                (s1\<lparr>main := (main s)\<lparr>mw_flags :=
                                        mw_flags (main s) XOR
                                        (FramelessWindowHint OR WindowStaysOnTopHint)\<rparr>\<rparr>)
                         else s1);
                   s4 = showNormal s3
               in if truthy (maximized_flag s) then showMaximized s4 else s4))"
  using assms by (simp add: toggle_fullscreen_def Let_def window_defs)

lemma toggle_fullscreen_flag:
  "fullscreen_flag (snd (toggle_fullscreen s)) = Some (fullscreen_flag s \<noteq> Some True)"
  by (simp add: toggle_fullscreen_def Let_def window_defs split: option.splits)

text \<open>
  C3. \<open>toggle_fullscreen\<close> inverts the flag that \<open>get_fullscreen_flag\<close> reports,
  on every call. Entering fullscreen (the flag was not true) records whether the
  window was maximized and its normal geometry, then shows the window fullscreen
  (on Windows: frameless, over the whole screen); toggling again from there leaves
  fullscreen and the window is maximized exactly when it was before entering.
  Leaving fullscreen (the flag was true) shows the window normal and then maximized
  exactly when the recorded maximized flag is true. After every toggle that returns,
  the icon of the fullscreen action is the one for the new flag.
\<close>

theorem toggle_fullscreen_inverts_flag:
  "get_fullscreen_flag (snd (toggle_fullscreen s)) = Some (get_fullscreen_flag s \<noteq> Some True)
   \<and> (get_fullscreen_flag s \<noteq> Some True \<longrightarrow>
         fst (toggle_fullscreen s) = Returned ()
       \<and> maximized_flag (snd (toggle_fullscreen s)) = VBool (isMaximized s)
       \<and> saved_normal_geometry (snd (toggle_fullscreen s)) = Some (mw_normal_geometry (main s))
       \<and> (os_name s \<noteq> ''nt'' \<longrightarrow> isFullScreen (snd (toggle_fullscreen s)))
       \<and> (os_name s = ''nt'' \<longrightarrow>
             mw_pos (main (snd (toggle_fullscreen s)))
               = (qr_left (screen_geometry s) - 1, qr_top (screen_geometry s) - 1)
           \<and> mw_size (main (snd (toggle_fullscreen s)))
               = (qr_width (screen_geometry s) + 2, qr_height (screen_geometry s) + 2))
       \<and> isMaximized (snd (toggle_fullscreen (snd (toggle_fullscreen s)))) = isMaximized s
       \<and> \<not> isFullScreen (snd (toggle_fullscreen (snd (toggle_fullscreen s)))))
   \<and> (get_fullscreen_flag s = Some True
        \<and> (os_name s = ''nt'' \<longrightarrow> saved_normal_geometry s \<noteq> None) \<longrightarrow>
         fst (toggle_fullscreen s) = Returned ()
       \<and> \<not> isFullScreen (snd (toggle_fullscreen s))
       \<and> isMaximized (snd (toggle_fullscreen s)) = truthy (maximized_flag s))
   \<and> (fst (toggle_fullscreen s) = Returned () \<longrightarrow>
         fullscreen_action_icon (snd (toggle_fullscreen s))
           = (if get_fullscreen_flag (snd (toggle_fullscreen s)) = Some True
              then ''window_nofullscreen'' else ''window_fullscreen''))"
proof (intro conjI impI)
  show "get_fullscreen_flag (snd (toggle_fullscreen s)) = Some (get_fullscreen_flag s \<noteq> Some True)"
    by (simp add: get_fullscreen_flag_def toggle_fullscreen_flag)
next
  assume "fst (toggle_fullscreen s) = Returned ()"
  then show "fullscreen_action_icon (snd (toggle_fullscreen s))
           = (if get_fullscreen_flag (snd (toggle_fullscreen s)) = Some True
              then ''window_nofullscreen'' else ''window_fullscreen'')"
    by (auto simp add: toggle_fullscreen_def Let_def window_defs split: option.splits if_splits)
next
  assume a: "get_fullscreen_flag s = Some True
        \<and> (os_name s = ''nt'' \<longrightarrow> saved_normal_geometry s \<noteq> None)"
  then obtain g where g: "os_name s = ''nt'' \<Longrightarrow> saved_normal_geometry s = Some g"
    by (cases "saved_normal_geometry s") auto
  from a have f: "fullscreen_flag s = Some True" by (simp add: get_fullscreen_flag_def)
  note l = toggle_fullscreen_leave [OF f g]
  show "fst (toggle_fullscreen s) = Returned ()" by (simp add: l)
  show "\<not> isFullScreen (snd (toggle_fullscreen s))"
    by (simp add: l Let_def window_defs)
  show "isMaximized (snd (toggle_fullscreen s)) = truthy (maximized_flag s)"
    by (simp add: l Let_def window_defs)
next
  assume "get_fullscreen_flag s \<noteq> Some True"
  then have f: "fullscreen_flag s \<noteq> Some True" by (simp add: get_fullscreen_flag_def)
  note e = toggle_fullscreen_enter [OF f]
  define s1 where "s1 = snd (toggle_fullscreen s)"
  have f1: "fullscreen_flag s1 = Some True"
    by (simp add: s1_def toggle_fullscreen_flag f)
  have g1: "saved_normal_geometry s1 = Some (mw_normal_geometry (main s))"
    by (simp add: s1_def e Let_def window_defs)
  have m1: "maximized_flag s1 = VBool (isMaximized s)"
    by (simp add: s1_def e Let_def window_defs)
  note l = toggle_fullscreen_leave [of s1 "mw_normal_geometry (main s)", OF f1 g1]
  show "fst (toggle_fullscreen s) = Returned ()" by (simp add: e)
  show "maximized_flag (snd (toggle_fullscreen s)) = VBool (isMaximized s)"
    using m1 by (simp add: s1_def)
  show "saved_normal_geometry (snd (toggle_fullscreen s)) = Some (mw_normal_geometry (main s))"
    using g1 by (simp add: s1_def)
  show "isFullScreen (snd (toggle_fullscreen s))" if "os_name s \<noteq> ''nt''"
    using that by (simp add: e Let_def window_defs)
  show "mw_pos (main (snd (toggle_fullscreen s)))
               = (qr_left (screen_geometry s) - 1, qr_top (screen_geometry s) - 1)"
    if "os_name s = ''nt''"
    using that by (simp add: e Let_def window_defs)
  show "mw_size (main (snd (toggle_fullscreen s)))
               = (qr_width (screen_geometry s) + 2, qr_height (screen_geometry s) + 2)"
    if "os_name s = ''nt''"
    using that by (simp add: e Let_def window_defs)
  show "isMaximized (snd (toggle_fullscreen (snd (toggle_fullscreen s)))) = isMaximized s"
    unfolding s1_def [symmetric] using m1 by (simp add: l Let_def window_defs)
  show "\<not> isFullScreen (snd (toggle_fullscreen (snd (toggle_fullscreen s))))"
    unfolding s1_def [symmetric] by (simp add: l Let_def window_defs)
qed

theorem toggle_fullscreen_witness:
  "get_fullscreen_flag demo_maximized = None
   \<and> isMaximized demo_maximized
   \<and> get_fullscreen_flag (snd (toggle_fullscreen demo_maximized)) = Some True
   \<and> isFullScreen (snd (toggle_fullscreen demo_maximized))
   \<and> maximized_flag (snd (toggle_fullscreen demo_maximized)) = VBool True
   \<and> fullscreen_action_icon (snd (toggle_fullscreen demo_maximized)) = ''window_nofullscreen''
   \<and> get_fullscreen_flag (snd (toggle_fullscreen (snd (toggle_fullscreen demo_maximized))))
        = Some False
   \<and> isMaximized (snd (toggle_fullscreen (snd (toggle_fullscreen demo_maximized))))
   \<and> \<not> isFullScreen (snd (toggle_fullscreen (snd (toggle_fullscreen demo_maximized))))"
  using toggle_fullscreen_inverts_flag [of demo_maximized]
    toggle_fullscreen_inverts_flag [of "snd (toggle_fullscreen demo_maximized)"]
  by (simp add: demo_maximized_def demo_def demo_main_def WindowMaximized_def
                get_fullscreen_flag_def isMaximized_def)

subsection \<open>Populating the panes menu\<close>

lemma index_of_None: "index_of xs x = None \<longleftrightarrow> x \<notin> set xs"
  by (induction xs) auto

lemma index_of_update:
  "index_of xs x = Some pos \<Longrightarrow> is_str x \<Longrightarrow> distinct (filter is_str xs) \<Longrightarrow>
     xs[pos := a] = map (\<lambda>y. if y = x then a else y) xs"
proof (induction xs arbitrary: pos)
  case Nil
  then show ?case by simp
next
  case (Cons y ys)
  show ?case
  proof (cases "y = x")
    case True
    with Cons.prems have "x \<notin> set ys" by auto
    then have "map (\<lambda>y. if y = x then a else y) ys = ys"
      by (intro map_idI) auto
    with True Cons.prems show ?thesis by simp
  next
    case False
    with Cons.prems obtain pos' where "index_of ys x = Some pos'" "pos = Suc pos'"
      by auto
    moreover from Cons.prems have "distinct (filter is_str ys)"
      by (simp split: if_splits)
    ultimately show ?thesis
      using Cons.IH [of pos'] Cons.prems(2) False by simp
  qed
qed

lemma filter_is_str_replace:
  "\<not> is_str a \<Longrightarrow>
     filter is_str (map (\<lambda>y. if y = x then a else y) xs)
       = filter (\<lambda>y. y \<noteq> x) (filter is_str xs)"
  by (induction xs) auto

lemma place_action [simp]: "place ps (Item_action n) = Item_action n"
  by (simp add: place_def)

lemma place_None [simp]: "place ps Item_None = Item_None"
  by (simp add: place_def)

lemma place_Cons:
  "place (p # ps) item =
     (if item = Item_str (CONF_SECTION p) then Item_action (NAME p) else place ps item)"
  by (auto simp: place_def split: menu_item.splits)

lemma put_in_order_present:
  assumes "Item_str (CONF_SECTION p) \<in> set order" and "distinct (filter is_str order)"
  shows "put_in_order order p a
           = map (\<lambda>y. if y = Item_str (CONF_SECTION p) then a else y) order"
proof -
  from assms(1) obtain pos where "index_of order (Item_str (CONF_SECTION p)) = Some pos"
    using index_of_None [of order "Item_str (CONF_SECTION p)"] by (cases "index_of order (Item_str (CONF_SECTION p))") auto
  then show ?thesis
    using index_of_update [of order "Item_str (CONF_SECTION p)" pos a] assms(2)
    by (simp add: put_in_order_def is_str_def)
qed

lemma put_in_order_absent:
  "Item_str (CONF_SECTION p) \<notin> set order \<Longrightarrow> put_in_order order p a = order @ [a]"
  using index_of_None [of order "Item_str (CONF_SECTION p)"]
  by (simp add: put_in_order_def)

lemma place_all_spec:
  "distinct (map CONF_SECTION (shown ps)) \<Longrightarrow> distinct (filter is_str order) \<Longrightarrow>
     place_all ps order = map (place (shown ps)) order @ others (shown ps) order"
proof (induction ps arbitrary: order)
  case Nil
  have "map (place []) order = order"
    by (intro map_idI) (simp add: place_def split: menu_item.splits)
  then show ?case by (simp add: shown_def others_def)
next
  case (Cons p ps)
  show ?case
  proof (cases "dockwidget p = None")
    case True
    then have "shown (p # ps) = shown ps" by (simp add: shown_def)
    with Cons True show ?thesis by simp
  next
    case False
    let ?c = "Item_str (CONF_SECTION p)"
    let ?a = "Item_action (NAME p)"
    from False obtain dw where dw: "dockwidget p = Some dw" by auto
    from False have sh: "shown (p # ps) = p # shown ps" by (simp add: shown_def)
    with Cons.prems have d: "distinct (map CONF_SECTION (shown ps))"
      and fresh: "\<forall>q \<in> set (shown ps). CONF_SECTION q \<noteq> CONF_SECTION p"
      by (auto simp: image_iff)
    show ?thesis
    proof (cases "?c \<in> set order")
      case True
      let ?f = "\<lambda>y. if y = ?c then ?a else y"
      have put: "put_in_order order p ?a = map ?f order"
        using put_in_order_present [OF True Cons.prems(2)] .
      have na: "\<not> is_str ?a" by (simp add: is_str_def)
      have d': "distinct (filter is_str (map ?f order))"
        unfolding filter_is_str_replace [OF na] using Cons.prems(2) by (rule distinct_filter)
      have ih: "place_all ps (map ?f order)
                  = map (place (shown ps)) (map ?f order) @ others (shown ps) (map ?f order)"
        using Cons.IH [OF d d'] .
      have m: "map (place (shown ps)) (map ?f order) = map (place (p # shown ps)) order"
        by (simp add: place_Cons)
      have "\<And>q. q \<in> set (shown ps) \<Longrightarrow>
              (Item_str (CONF_SECTION q) \<in> set (map ?f order))
                = (Item_str (CONF_SECTION q) \<in> set order)"
        using fresh by (auto simp: image_iff)
      then have "filter (\<lambda>q. Item_str (CONF_SECTION q) \<notin> set (map ?f order)) (shown ps)
                 = filter (\<lambda>q. Item_str (CONF_SECTION q) \<notin> set order) (shown ps)"
        by (intro filter_cong) auto
      then have o: "others (shown ps) (map ?f order) = others (p # shown ps) order"
        using True by (simp add: others_def)
      have "place_all (p # ps) order = place_all ps (map ?f order)"
        using dw put by simp
      also have "\<dots> = map (place (shown ps)) (map ?f order) @ others (shown ps) (map ?f order)"
        by (rule ih)
      also have "\<dots> = map (place (p # shown ps)) order @ others (p # shown ps) order"
        by (simp only: m o)
      finally show ?thesis by (simp only: sh)
    next
      case absent: False
      have put: "put_in_order order p ?a = order @ [?a]"
        using put_in_order_absent [OF absent] .
      have na: "\<not> is_str ?a" by (simp add: is_str_def)
      have d': "distinct (filter is_str (order @ [?a]))"
        using Cons.prems(2) na by simp
      have ih: "place_all ps (order @ [?a])
                  = map (place (shown ps)) (order @ [?a]) @ others (shown ps) (order @ [?a])"
        using Cons.IH [OF d d'] .
      have m: "map (place (p # shown ps)) order = map (place (shown ps)) order"
        using absent by (intro map_cong) (auto simp: place_Cons)
      have o: "others (shown ps) (order @ [?a]) = others (shown ps) order"
        by (simp add: others_def)
      have o2: "others (p # shown ps) order = ?a # others (shown ps) order"
        using absent by (simp add: others_def)
      have "place_all (p # ps) order = place_all ps (order @ [?a])"
        using dw put by simp
      also have "\<dots> = map (place (shown ps)) (order @ [?a]) @ others (shown ps) (order @ [?a])"
        by (rule ih)
      also have "\<dots> = map (place (p # shown ps)) order @ others (p # shown ps) order"
        by (simp add: m o o2)
      finally show ?thesis by (simp only: sh)
    qed
  qed
qed

lemma order_plugins_run:
  "\<forall>p \<in> set ps. toggle_view_action p \<noteq> None \<Longrightarrow>
     \<exists>ps'. order_plugins ps order = (Returned (), ps', place_all ps order)
          \<and> map NAME ps' = map NAME ps
          \<and> map dockwidget ps' = map dockwidget ps
          \<and> (\<forall>p \<in> set ps'. \<forall>a d. toggle_view_action p = Some a \<and> dockwidget p = Some d
                \<longrightarrow> checked a = dw_visible d)"
proof (induction ps arbitrary: order)
  case Nil
  then show ?case by simp
next
  case (Cons p ps)
  then obtain a where a: "toggle_view_action p = Some a" by auto
  obtain a1 p1 where g: "get_toggle_view_action p = Returned (Some a1, p1)"
    and p1: "NAME p1 = NAME p" "CONF_SECTION p1 = CONF_SECTION p" "dockwidget p1 = dockwidget p"
            "toggle_view_action p1 = Some a1"
    using a by (cases "api p") (auto simp: get_toggle_view_action_def Let_def)
  from Cons.prems have rest: "\<forall>p \<in> set ps. toggle_view_action p \<noteq> None" by simp
  show ?case
  proof (cases "dockwidget p")
    case None
    from Cons.IH [OF rest, of order] obtain ps' where
      "order_plugins ps order = (Returned (), ps', place_all ps order)"
      "map NAME ps' = map NAME ps" "map dockwidget ps' = map dockwidget ps"
      "\<forall>p \<in> set ps'. \<forall>a d. toggle_view_action p = Some a \<and> dockwidget p = Some d
                \<longrightarrow> checked a = dw_visible d"
      by blast
    with None g p1 show ?thesis by simp
  next
    case (Some d)
    let ?p2 = "p1\<lparr>toggle_view_action := Some (a1\<lparr>checked := dw_visible d\<rparr>)\<rparr>"
    let ?order = "put_in_order order p (Item_action (NAME p))"
    have same: "put_in_order order ?p2 (Item_action (NAME ?p2)) = ?order"
      using p1 by (simp add: put_in_order_def)
    from Cons.IH [OF rest, of ?order] obtain ps' where
      "order_plugins ps ?order = (Returned (), ps', place_all ps ?order)"
      "map NAME ps' = map NAME ps" "map dockwidget ps' = map dockwidget ps"
      "\<forall>p \<in> set ps'. \<forall>a d. toggle_view_action p = Some a \<and> dockwidget p = Some d
                \<longrightarrow> checked a = dw_visible d"
      by blast
    with Some g p1 same show ?thesis by (simp add: Let_def)
  qed
qed

lemma distinct_initial_order: "distinct (filter is_str initial_order)"
  by (simp add: initial_order_def is_str_def)

text \<open>
  C7. For plugins that all have a toggle-view action, and whose configuration
  sections differ among those with a dock widget, \<open>create_plugins_menu\<close> returns
  and adds to the panes menu the action of every plugin that has a dock widget:
  the plugins whose \<open>CONF_SECTION\<close> is in the fixed order list at the position of
  that name, the separators of the list between them, and all other plugins after
  them in the order of the registry. Plugins without dock widget are skipped, and
  the action of every other plugin is checked exactly when its dock widget is visible.
\<close>

theorem create_plugins_menu_order:
  assumes "\<forall>p \<in> set (plugins s). toggle_view_action p \<noteq> None"
    and "distinct (map CONF_SECTION (filter (\<lambda>p. dockwidget p \<noteq> None) (plugins s)))"
  shows "fst (create_plugins_menu s) = Returned ()
       \<and> plugins_menu (snd (create_plugins_menu s))
           = plugins_menu s @ panes_menu_spec (plugins s)
       \<and> map NAME (plugins (snd (create_plugins_menu s))) = map NAME (plugins s)
       \<and> map dockwidget (plugins (snd (create_plugins_menu s))) = map dockwidget (plugins s)
       \<and> (\<forall>p \<in> set (plugins (snd (create_plugins_menu s))). \<forall>a d.
             toggle_view_action p = Some a \<and> dockwidget p = Some d
               \<longrightarrow> checked a = dw_visible d)"
proof -
  from order_plugins_run [OF assms(1), of initial_order] obtain ps' where
    run: "order_plugins (plugins s) initial_order
            = (Returned (), ps', place_all (plugins s) initial_order)"
    and keep: "map NAME ps' = map NAME (plugins s)" "map dockwidget ps' = map dockwidget (plugins s)"
    and chk: "\<forall>p \<in> set ps'. \<forall>a d. toggle_view_action p = Some a \<and> dockwidget p = Some d
                \<longrightarrow> checked a = dw_visible d"
    by blast
  have "place_all (plugins s) initial_order
          = map (place (shown (plugins s))) initial_order @ others (shown (plugins s)) initial_order"
    using place_all_spec [of "plugins s" initial_order] assms(2) distinct_initial_order
    by (simp add: shown_def)
  then have "filter (\<lambda>item. \<not> is_str item) (place_all (plugins s) initial_order)
               = panes_menu_spec (plugins s)"
    by (simp add: panes_menu_spec_def others_def is_str_def)
  with run keep chk show ?thesis
    by (simp add: create_plugins_menu_def)
qed

theorem create_plugins_menu_order_witness:
  "fst (create_plugins_menu demo_incompatible) = Returned ()
   \<and> plugins_menu (snd (create_plugins_menu demo_incompatible))
       = [Item_action ''editor'', Item_action ''ipython_console'', Item_action ''help'',
          Item_None, Item_None, Item_None, Item_None, Item_action ''my_pane'']"
  using create_plugins_menu_order [of demo_incompatible]
  by (simp add: demo_incompatible_def demo_def demo_plugins_def demo_plugin_def demo_dock_def
                panes_menu_spec_def shown_def place_def others_def initial_order_def is_str_def)

subsection \<open>A hexstate that the toolkit rejects\<close>





subsection \<open>Setting and reading the window settings\<close>










subsection \<open>Maximizing and restoring a pane\<close>


















subsection \<open>Switching to a layout without saved state\<close>











subsection \<open>Restoring when nothing is maximized\<close>

text \<open>
  C9. \<open>maximize_dockwidget(restore=True)\<close> while no pane is maximized (the saved
  pre-maximize state is \<open>None\<close>) returns at once and changes nothing: the last
  plugin, the saved state, every dock widget and the central widget of the main
  window are as before, since the whole state is.
\<close>

theorem maximize_dockwidget_restore_noop:
  "state_before_maximizing s = None \<Longrightarrow> maximize_dockwidget True s = (Returned (), s)"
  by (simp add: maximize_dockwidget_def)

theorem maximize_dockwidget_restore_noop_witness:
  "state_before_maximizing demo = None \<and> maximize_dockwidget True demo = (Returned (), demo)"
  using maximize_dockwidget_restore_noop [of demo] by (simp add: demo_def)

end
